theory Spec2Isabelle
  imports Complex_Main
begin

section \<open>Roof synthesis (core/roof/roof\_types.py): data model\<close>

text \<open>
  The module builds roofs on a Blender mesh. Coordinates are Python floats; they are
  read here as real numbers, so every statement below is about exact arithmetic.
  A mesh element (\<open>BMVert\<close>, \<open>BMEdge\<close>, \<open>BMFace\<close>) is an object of the mesh; it is
  modelled by its index in the mesh, and the mesh holds what the element carries.
  Python exceptions are values of the type \<open>error\<close>.
\<close>

datatype error = IndexError | ValueError | ZeroDivisionError | ReferenceError

datatype Vector = Vector (vx: real) (vy: real) (vz: real)

text \<open>A node of the straight skeleton: a 2D location with \<open>.x\<close> and \<open>.y\<close>.\<close>

datatype Point = Point (px: real) (py: real)

record BMVert =
  vert_index :: nat
  co :: Vector

record BMEdge =
  edge_index :: nat
  edge_verts :: "nat \<times> nat"

record BMFace =
  face_index :: nat
  face_verts :: "nat list"

record BMesh =
  bm_verts :: "BMVert list"
  bm_edges :: "BMEdge list"
  bm_faces :: "BMFace list"
  bm_next :: nat

text \<open>An arc of the skeleton, as \<open>skeletonize\<close> returns it.\<close>

record Arc =
  source :: Point
  height :: real
  sinks :: "Point list"

text \<open>
  Modelled from the spec: \<open>equal\<close> of the package's \<open>utils\<close>, which is not among the
  sources; the spec describes it as equality within a fixed epsilon such as 1e-4.
  The functions below take the comparison as the parameter \<open>eq\<close>, so what is proved
  of them holds for any tolerance; \<open>equal_eps\<close> is the instance the examples use.
\<close>

definition equal_eps :: "real \<Rightarrow> real \<Rightarrow> real \<Rightarrow> bool" where
  "equal_eps eps a b \<longleftrightarrow> \<bar>a - b\<bar> \<le> eps"

subsection \<open>Python's max and min with a key\<close>

text \<open>
  \<open>max(xs, key=f)\<close> returns the first element whose key is maximal, and raises
  ValueError on an empty sequence; \<open>min\<close> likewise.
\<close>

fun max_key :: "('a \<Rightarrow> real) \<Rightarrow> 'a \<Rightarrow> 'a list \<Rightarrow> 'a" where
  "max_key f best [] = best"
| "max_key f best (v # vs) = max_key f (if f best < f v then v else best) vs"

fun min_key :: "('a \<Rightarrow> real) \<Rightarrow> 'a \<Rightarrow> 'a list \<Rightarrow> 'a" where
  "min_key f best [] = best"
| "min_key f best (v # vs) = min_key f (if f v < f best then v else best) vs"

definition py_max :: "('a \<Rightarrow> real) \<Rightarrow> 'a list \<Rightarrow> error + 'a" where
  "py_max f xs = (case xs of [] \<Rightarrow> Inl ValueError | v # vs \<Rightarrow> Inr (max_key f v vs))"

definition py_min :: "('a \<Rightarrow> real) \<Rightarrow> 'a list \<Rightarrow> error + 'a" where
  "py_min f xs = (case xs of [] \<Rightarrow> Inl ValueError | v # vs \<Rightarrow> Inr (min_key f v vs))"

subsection \<open>vert\_at\_loc\<close>

text \<open>
  \<open>if loc_z:\<close> is Python truthiness: the z constraint applies when \<open>loc_z\<close> is given
  and is not 0.
\<close>

definition truthy :: "real option \<Rightarrow> bool" where
  "truthy loc_z = (case loc_z of None \<Rightarrow> False | Some lz \<Rightarrow> lz \<noteq> 0)"

definition vert_at_loc_results ::
  "(real \<Rightarrow> real \<Rightarrow> bool) \<Rightarrow> Point \<Rightarrow> BMVert list \<Rightarrow> real option \<Rightarrow> BMVert list" where
  "vert_at_loc_results eq loc verts loc_z =
     filter (\<lambda>vert.
        eq (vx (co vert)) (px loc) \<and> eq (vy (co vert)) (py loc) \<and>
        (if truthy loc_z then eq (vz (co vert)) (the loc_z) else True)) verts"

definition vert_at_loc ::
  "(real \<Rightarrow> real \<Rightarrow> bool) \<Rightarrow> Point \<Rightarrow> BMVert list \<Rightarrow> real option \<Rightarrow> BMVert option" where
  "vert_at_loc eq loc verts loc_z =
     (case vert_at_loc_results eq loc verts loc_z of
        [] \<Rightarrow> None
      | v # vs \<Rightarrow> Some (max_key (\<lambda>v. vz (co v)) v vs))"

subsection \<open>The mesh kernel\<close>

text \<open>
  The operations of Blender's \<open>bmesh\<close> module that the roof code calls are not part of
  the package. They are modelled here by what their documentation says, as far as the
  roof code depends on it.

  A vertex, edge or face object that was removed from the mesh raises ReferenceError
  when it is read.
\<close>

definition get_vert :: "BMesh \<Rightarrow> nat \<Rightarrow> error + BMVert" where
  "get_vert bm i =
     (case find (\<lambda>v. vert_index v = i) (bm_verts bm) of
        None \<Rightarrow> Inl ReferenceError | Some v \<Rightarrow> Inr v)"

definition get_edge :: "BMesh \<Rightarrow> nat \<Rightarrow> error + BMEdge" where
  "get_edge bm i =
     (case find (\<lambda>e. edge_index e = i) (bm_edges bm) of
        None \<Rightarrow> Inl ReferenceError | Some e \<Rightarrow> Inr e)"

text \<open>Running a fallible function over a list, stopping at the first error.\<close>

fun map_err :: "('a \<Rightarrow> error + 'b) \<Rightarrow> 'a list \<Rightarrow> error + 'b list" where
  "map_err f [] = Inr []"
| "map_err f (x # xs) =
     (case f x of
        Inl e \<Rightarrow> Inl e
      | Inr y \<Rightarrow> (case map_err f xs of Inl e \<Rightarrow> Inl e | Inr ys \<Rightarrow> Inr (y # ys)))"

definition vec_add :: "Vector \<Rightarrow> Vector \<Rightarrow> Vector" where
  "vec_add a b = Vector (vx a + vx b) (vy a + vy b) (vz a + vz b)"

definition vec_sub :: "Vector \<Rightarrow> Vector \<Rightarrow> Vector" where
  "vec_sub a b = Vector (vx a - vx b) (vy a - vy b) (vz a - vz b)"

definition vec_scale :: "real \<Rightarrow> Vector \<Rightarrow> Vector" where
  "vec_scale k a = Vector (k * vx a) (k * vy a) (k * vz a)"

definition vec_div :: "Vector \<Rightarrow> real \<Rightarrow> Vector" where
  "vec_div a k = Vector (vx a / k) (vy a / k) (vz a / k)"

definition vec_length :: "Vector \<Rightarrow> real" where
  "vec_length a = sqrt ((vx a)\<^sup>2 + (vy a)\<^sup>2 + (vz a)\<^sup>2)"

text \<open>
  \<open>bmesh.ops.remove_doubles(bm, verts=bm.verts, dist=d)\<close> welds every vertex that lies
  within \<open>d\<close> of an earlier vertex it keeps onto that vertex. The kept vertices stay
  where they are; an edge whose two ends become one vertex goes, and so does an edge or
  face that repeats another. The default of \<open>dist\<close> is 0.
\<close>

fun weld_map :: "real \<Rightarrow> BMVert list \<Rightarrow> BMVert list \<Rightarrow> (nat \<times> nat) list" where
  "weld_map d kept [] = []"
| "weld_map d kept (v # vs) =
     (case find (\<lambda>k. vec_length (vec_sub (co k) (co v)) \<le> d) kept of
        Some k \<Rightarrow> (vert_index v, vert_index k) # weld_map d kept vs
      | None \<Rightarrow> weld_map d (kept @ [v]) vs)"

definition same_ends :: "nat \<times> nat \<Rightarrow> nat \<times> nat \<Rightarrow> bool" where
  "same_ends a b \<longleftrightarrow> a = b \<or> a = (snd b, fst b)"

fun first_edges :: "BMEdge list \<Rightarrow> BMEdge list \<Rightarrow> BMEdge list" where
  "first_edges seen [] = seen"
| "first_edges seen (e # es) =
     (if \<exists>k \<in> set seen. same_ends (edge_verts k) (edge_verts e)
      then first_edges seen es else first_edges (seen @ [e]) es)"

fun first_faces :: "BMFace list \<Rightarrow> BMFace list \<Rightarrow> BMFace list" where
  "first_faces seen [] = seen"
| "first_faces seen (f # fs) =
     (if \<exists>k \<in> set seen. set (face_verts k) = set (face_verts f)
      then first_faces seen fs else first_faces (seen @ [f]) fs)"

definition remove_doubles :: "real \<Rightarrow> BMesh \<Rightarrow> BMesh" where
  "remove_doubles d bm =
     (let tm = weld_map d [] (bm_verts bm);
          target = (\<lambda>i. case map_of tm i of Some k \<Rightarrow> k | None \<Rightarrow> i);
          edges1 = map (\<lambda>e. e\<lparr>edge_verts :=
                     (target (fst (edge_verts e)), target (snd (edge_verts e)))\<rparr>) (bm_edges bm);
          faces1 = map (\<lambda>f. f\<lparr>face_verts := remdups (map target (face_verts f))\<rparr>) (bm_faces bm)
      in bm\<lparr>bm_verts := filter (\<lambda>v. map_of tm (vert_index v) = None) (bm_verts bm),
            bm_edges := first_edges []
                          (filter (\<lambda>e. fst (edge_verts e) \<noteq> snd (edge_verts e)) edges1),
            bm_faces := first_faces []
                          (filter (\<lambda>f. 3 \<le> length (face_verts f)) faces1)\<rparr>)"

subsection \<open>merge\_verts\_along\_axis\<close>

text \<open>
  \<open>create_gable_roof\<close> chooses the axis by \<open>"x" if prop.orient == "HORIZONTAL" else "y"\<close>;
  \<open>operator.attrgetter("co." + axis)\<close>, \<open>getattr\<close> and \<open>setattr\<close> then read and write
  that coordinate.
\<close>

datatype Orient = HORIZONTAL | VERTICAL

datatype Axis = Axis_x | Axis_y

definition gable_axis :: "Orient \<Rightarrow> Axis" where
  "gable_axis orient = (if orient = HORIZONTAL then Axis_x else Axis_y)"

definition getattr :: "Vector \<Rightarrow> Axis \<Rightarrow> real" where
  "getattr v axis = (case axis of Axis_x \<Rightarrow> vx v | Axis_y \<Rightarrow> vy v)"

definition setattr :: "Vector \<Rightarrow> Axis \<Rightarrow> real \<Rightarrow> Vector" where
  "setattr v axis m =
     (case axis of Axis_x \<Rightarrow> Vector m (vy v) (vz v) | Axis_y \<Rightarrow> Vector (vx v) m (vz v))"

definition key_func :: "Axis \<Rightarrow> BMVert \<Rightarrow> real" where
  "key_func axis v = getattr (co v) axis"

text \<open>\<open>setattr(v.co, axis, mid)\<close> for the vertex object \<open>v\<close> of the mesh.\<close>

definition set_vert_co :: "BMesh \<Rightarrow> nat \<Rightarrow> Axis \<Rightarrow> real \<Rightarrow> BMesh" where
  "set_vert_co bm i axis m =
     bm\<lparr>bm_verts := map (\<lambda>v. if vert_index v = i then v\<lparr>co := setattr (co v) axis m\<rparr> else v)
                        (bm_verts bm)\<rparr>"

definition merge_verts_along_axis :: "BMesh \<Rightarrow> nat list \<Rightarrow> Axis \<Rightarrow> error + BMesh" where
  "merge_verts_along_axis bm verts axis =
     (case map_err (get_vert bm) verts of
        Inl e \<Rightarrow> Inl e
      | Inr vs \<Rightarrow>
          (case py_max (key_func axis) vs of
             Inl e \<Rightarrow> Inl e
           | Inr max' \<Rightarrow>
               (case py_min (key_func axis) vs of
                  Inl e \<Rightarrow> Inl e
                | Inr min' \<Rightarrow>
                    (let mid = getattr (vec_div (vec_add (co max') (co min')) 2) axis;
                         bm' = fold (\<lambda>v b. set_vert_co b v axis mid) verts bm
                     in Inr (remove_doubles 0 bm')))))"

section \<open>Properties\<close>

subsection \<open>max and min with a key\<close>

lemma max_key_mem: "max_key f b xs \<in> set (b # xs)"
  by (induction xs arbitrary: b) auto

lemma max_key_ge_best: "f b \<le> f (max_key f b xs)"
proof (induction xs arbitrary: b)
  case Nil
  show ?case by simp
next
  case (Cons v vs)
  have "f b \<le> f (if f b < f v then v else b)" by simp
  also have "\<dots> \<le> f (max_key f (if f b < f v then v else b) vs)" by (rule Cons.IH)
  finally show ?case by simp
qed

lemma max_key_ge: "u \<in> set (b # xs) \<Longrightarrow> f u \<le> f (max_key f b xs)"
proof (induction xs arbitrary: b)
  case Nil
  then show ?case by simp
next
  case (Cons v vs)
  let ?b = "if f b < f v then v else b"
  have step: "f ?b \<le> f (max_key f ?b vs)" by (rule max_key_ge_best)
  from Cons.prems consider "u = b" | "u = v" | "u \<in> set vs" by auto
  then show ?case
  proof cases
    case 1
    have "f b \<le> f ?b" by simp
    with step 1 show ?thesis by simp
  next
    case 2
    have "f v \<le> f ?b" by simp
    with step 2 show ?thesis by simp
  next
    case 3
    then have "u \<in> set (?b # vs)" by simp
    then have "f u \<le> f (max_key f ?b vs)" by (rule Cons.IH)
    then show ?thesis by simp
  qed
qed

lemma min_key_mem: "min_key f b xs \<in> set (b # xs)"
  by (induction xs arbitrary: b) auto

lemma min_key_le_best: "f (min_key f b xs) \<le> f b"
proof (induction xs arbitrary: b)
  case Nil
  show ?case by simp
next
  case (Cons v vs)
  have "f (min_key f (if f v < f b then v else b) vs) \<le> f (if f v < f b then v else b)"
    by (rule Cons.IH)
  also have "\<dots> \<le> f b" by simp
  finally show ?case by simp
qed

lemma min_key_le: "u \<in> set (b # xs) \<Longrightarrow> f (min_key f b xs) \<le> f u"
proof (induction xs arbitrary: b)
  case Nil
  then show ?case by simp
next
  case (Cons v vs)
  let ?b = "if f v < f b then v else b"
  have step: "f (min_key f ?b vs) \<le> f ?b" by (rule min_key_le_best)
  from Cons.prems consider "u = b" | "u = v" | "u \<in> set vs" by auto
  then show ?case
  proof cases
    case 1
    have "f ?b \<le> f b" by simp
    with step 1 show ?thesis by simp
  next
    case 2
    have "f ?b \<le> f v" by simp
    with step 2 show ?thesis by simp
  next
    case 3
    then have "u \<in> set (?b # vs)" by simp
    then have "f (min_key f ?b vs) \<le> f u" by (rule Cons.IH)
    then show ?thesis by simp
  qed
qed

subsection \<open>vert\_at\_loc returns the highest vertex at the location\<close>

text \<open>
  C10. With no z constraint, the vertices that match are those whose x and y are equal
  to the location's within the tolerance. If none matches, the lookup returns no vertex;
  otherwise it returns one of the matching vertices, and no matching vertex has a greater
  z coordinate.
\<close>

theorem vert_at_loc_highest:
  "((\<forall>u \<in> set verts. \<not> (eq (vx (co u)) (px loc) \<and> eq (vy (co u)) (py loc))) \<longrightarrow>
      vert_at_loc eq loc verts None = None) \<and>
   ((\<exists>u \<in> set verts. eq (vx (co u)) (px loc) \<and> eq (vy (co u)) (py loc)) \<longrightarrow>
      (\<exists>v. vert_at_loc eq loc verts None = Some v \<and>
           v \<in> set verts \<and>
           eq (vx (co v)) (px loc) \<and> eq (vy (co v)) (py loc) \<and>
           (\<forall>u \<in> set verts.
              eq (vx (co u)) (px loc) \<and> eq (vy (co u)) (py loc) \<longrightarrow> vz (co u) \<le> vz (co v))))"
proof (cases "vert_at_loc_results eq loc verts None")
  case Nil
  then have "\<forall>u \<in> set verts. \<not> (eq (vx (co u)) (px loc) \<and> eq (vy (co u)) (py loc))"
    by (auto simp: vert_at_loc_results_def truthy_def filter_empty_conv)
  with Nil show ?thesis by (simp add: vert_at_loc_def)
next
  case (Cons w ws)
  let ?v = "max_key (\<lambda>v. vz (co v)) w ws"
  have res: "vert_at_loc eq loc verts None = Some ?v"
    by (simp add: vert_at_loc_def Cons)
  have "?v \<in> set (w # ws)" by (rule max_key_mem)
  then have mem: "?v \<in> set (vert_at_loc_results eq loc verts None)" by (simp add: Cons)
  then have in_verts: "?v \<in> set verts"
    and at_loc: "eq (vx (co ?v)) (px loc) \<and> eq (vy (co ?v)) (py loc)"
    by (simp_all add: vert_at_loc_results_def)
  have top: "vz (co u) \<le> vz (co ?v)"
    if "u \<in> set verts" and "eq (vx (co u)) (px loc) \<and> eq (vy (co u)) (py loc)" for u
  proof -
    from that have "u \<in> set (vert_at_loc_results eq loc verts None)"
      by (simp add: vert_at_loc_results_def truthy_def)
    then have "u \<in> set (w # ws)" by (simp add: Cons)
    then show ?thesis by (rule max_key_ge)
  qed
  from in_verts at_loc have "\<not> (\<forall>u \<in> set verts. \<not> (eq (vx (co u)) (px loc) \<and> eq (vy (co u)) (py loc)))"
    by blast
  with res in_verts at_loc top show ?thesis by blast
qed

text \<open>
  Three vertices, two of them above each other at (1, 1): the lookup at (1, 1) returns the
  upper one, and the lookup at (5, 5) returns none.
\<close>

theorem vert_at_loc_highest_witness:
  "vert_at_loc (equal_eps (1/10000)) (Point 1 1)
     [\<lparr>vert_index = 0, co = Vector 1 1 0\<rparr>,
      \<lparr>vert_index = 1, co = Vector 1 1 3\<rparr>,
      \<lparr>vert_index = 2, co = Vector 4 1 7\<rparr>] None
     = Some \<lparr>vert_index = 1, co = Vector 1 1 3\<rparr> \<and>
   vert_at_loc (equal_eps (1/10000)) (Point 5 5)
     [\<lparr>vert_index = 0, co = Vector 1 1 0\<rparr>,
      \<lparr>vert_index = 1, co = Vector 1 1 3\<rparr>,
      \<lparr>vert_index = 2, co = Vector 4 1 7\<rparr>] None = None"
  using
    vert_at_loc_highest [where eq = "equal_eps (1/10000)" and loc = "Point 1 1" and verts =
      "[\<lparr>vert_index = 0, co = Vector 1 1 0\<rparr>,
        \<lparr>vert_index = 1, co = Vector 1 1 3\<rparr>,
        \<lparr>vert_index = 2, co = Vector 4 1 7\<rparr>]"]
    vert_at_loc_highest [where eq = "equal_eps (1/10000)" and loc = "Point 5 5" and verts =
      "[\<lparr>vert_index = 0, co = Vector 1 1 0\<rparr>,
        \<lparr>vert_index = 1, co = Vector 1 1 3\<rparr>,
        \<lparr>vert_index = 2, co = Vector 4 1 7\<rparr>]"]
  by (simp add: vert_at_loc_def vert_at_loc_results_def truthy_def equal_eps_def)

end
